theory Spec2Isabelle
  imports Complex_Main
begin

section \<open>Errors\<close>

text \<open>
  Every exception the modelled code can raise is a value. \<open>ExternalError\<close> stands for a
  failure that a collaborator outside the modelled files raises and the code lets through
  (a failed download of the reference weights, for instance).
\<close>

datatype error =
    AssertionError
  | ZeroDivisionError
  | IndexError
  | KeyError
  | RuntimeError
  | ValueError
  | FileNotFoundError
  | SameFileError
  | ExternalError string

definition then_do :: "error + 'a \<Rightarrow> ('a \<Rightarrow> error + 'b) \<Rightarrow> error + 'b" where
  "then_do m f = (case m of Inl e \<Rightarrow> Inl e | Inr a \<Rightarrow> f a)"

section \<open>The ResNet with MixStyle modules (dglib/generalization/mixstyle/models/resnet.py)\<close>

subsection \<open>Data\<close>

text \<open>
  The argument \<open>resnet_class\<close> is a Python class object. The two classes the factory knows
  are constructors of their own; any other class is \<open>OtherClass\<close> with its name.
\<close>

datatype resnet_class = ResNet | ReidResNet | OtherClass string

text \<open>
  A module call transforms the running feature map \<open>'x\<close> and may read and write the
  runtime state \<open>'s\<close> (random generator, running statistics, training flag): MixStyle is
  stochastic and batch normalisation keeps running statistics, so a call is a state
  transformer and not a function of the feature map alone.
\<close>

type_synonym ('x, 's) module = "'x \<Rightarrow> 's \<Rightarrow> 'x \<times> 's"

text \<open>
  What the constructor of the base class builds: the sub-modules that \<open>forward\<close> calls and
  the parameter dictionary \<open>state_dict\<close>, an ordered dictionary from parameter names to
  tensors \<open>'v\<close>.
\<close>

record ('x, 's, 'v) resnet_base =
  conv1 :: "('x, 's) module"
  bn1 :: "('x, 's) module"
  relu :: "('x, 's) module"
  maxpool :: "('x, 's) module"
  layer1 :: "('x, 's) module"
  layer2 :: "('x, 's) module"
  layer3 :: "('x, 's) module"
  layer4 :: "('x, 's) module"
  state_dict :: "(string \<times> 'v) list"

text \<open>
  The class \<open>ResNetWithMixStyleModule\<close> inherits from \<open>resnet_class\<close> and adds the MixStyle
  module and the list of layers after which it is applied. \<open>base_class\<close> is the variable
  \<open>resnet_class\<close> of the enclosing factory call, which \<open>forward\<close> reads.
\<close>

record ('x, 's, 'v) ResNetWithMixStyleModule = "('x, 's, 'v) resnet_base" +
  mixStyleModule :: "('x, 's) module"
  apply_layers :: "string list"
  base_class :: resnet_class

subsection \<open>The forward pass (lines 39-58)\<close>

definition forward :: "('x, 's, 'v) ResNetWithMixStyleModule \<Rightarrow> ('x, 's) module" where
  "forward self x0 s0 =
    (let (x, s) = conv1 self x0 s0;
         (x, s) = bn1 self x s;
         (x, s) = (if base_class self \<noteq> ReidResNet then relu self x s else (x, s));
         (x, s) = maxpool self x s;
         (x, s) = layer1 self x s;
         (x, s) = (if ''layer1'' \<in> set (apply_layers self)
                   then mixStyleModule self x s else (x, s));
         (x, s) = layer2 self x s;
         (x, s) = (if ''layer2'' \<in> set (apply_layers self)
                   then mixStyleModule self x s else (x, s));
         (x, s) = layer3 self x s;
         (x, s) = (if ''layer3'' \<in> set (apply_layers self)
                   then mixStyleModule self x s else (x, s));
         (x, s) = layer4 self x s
     in (x, s))"

subsection \<open>The constructor and the factory (lines 8-37 and 60-69)\<close>

text \<open>The loop of \<open>__init__\<close> that asserts every requested layer name (lines 35-36).\<close>

fun assert_mix_layers :: "string list \<Rightarrow> error + unit" where
  "assert_mix_layers [] = Inr ()"
| "assert_mix_layers (layer # rest) =
     (if layer \<in> set [''layer1'', ''layer2'', ''layer3'']
      then assert_mix_layers rest else Inl AssertionError)"

text \<open>
  \<open>__init__\<close> (lines 32-37), in the order of the source: the constructor of the base
  class runs first, on the block, the depth list and the remaining keyword arguments
  (line 33); then the constructor of MixStyle (line 34); then the layer names are asserted
  (lines 35-36) and stored (line 37). The two constructors live outside this file and can
  raise: they are the parameters \<open>base_init\<close> and \<open>MixStyle\<close>, and an exception of
  either ends the construction before the names are looked at.
\<close>

definition init ::
  "(resnet_class \<Rightarrow> 'blk \<Rightarrow> nat list \<Rightarrow> 'kw \<Rightarrow> error + ('x, 's, 'v) resnet_base) \<Rightarrow>
   (real \<Rightarrow> real \<Rightarrow> error + ('x, 's) module) \<Rightarrow>
   resnet_class \<Rightarrow> string list \<Rightarrow> real \<Rightarrow> real \<Rightarrow> 'blk \<Rightarrow> nat list \<Rightarrow> 'kw \<Rightarrow>
   error + ('x, 's, 'v) ResNetWithMixStyleModule" where
  "init base_init MixStyle resnet_class mix_layers mix_p mix_alpha block layers kwargs =
     then_do (base_init resnet_class block layers kwargs) (\<lambda>base.
     then_do (MixStyle mix_p mix_alpha) (\<lambda>mix.
     then_do (assert_mix_layers mix_layers) (\<lambda>_.
       Inr (resnet_base.extend base
         \<lparr>mixStyleModule = mix, apply_layers = mix_layers, base_class = resnet_class\<rparr>))))"

text \<open>
  \<open>Module.load_state_dict\<close> of the tensor library, as its documentation describes it: a
  tensor of the model is overwritten by the tensor of the same name in \<open>sd\<close>; a name of
  the model that \<open>sd\<close> lacks (missing) or a name of \<open>sd\<close> that the model lacks
  (unexpected) is an error only when \<open>strict\<close> holds; a tensor of \<open>sd\<close> whose shape
  differs from the model's tensor of that name is an error always.
\<close>

definition load_state_dict :: "('v \<Rightarrow> 'sh) \<Rightarrow> (string \<times> 'v) list \<Rightarrow> (string \<times> 'v) list \<Rightarrow>
    bool \<Rightarrow> error + (string \<times> 'v) list" where
  "load_state_dict shape own sd strict =
     (let mismatched = filter (\<lambda>(k, v). case map_of sd k of
                                  None \<Rightarrow> False | Some v' \<Rightarrow> shape v' \<noteq> shape v) own;
          missing = filter (\<lambda>(k, v). map_of sd k = None) own;
          unexpected = filter (\<lambda>(k, v). map_of own k = None) sd
      in if mismatched \<noteq> [] then Inl RuntimeError
         else if strict \<and> (missing \<noteq> [] \<or> unexpected \<noteq> []) then Inl RuntimeError
         else Inr (map (\<lambda>(k, v). (k, case map_of sd k of None \<Rightarrow> v | Some v' \<Rightarrow> v')) own))"

text \<open>
  The factory \<open>_resnet_with_mix_style\<close>. Its parameters from outside this file:
  \<open>model_urls\<close>, a table of the base module; \<open>load_state_dict_from_url\<close>, the download,
  which returns the dictionary or fails with a message that the factory lets through; the
  two constructors \<open>base_init\<close> and \<open>MixStyle\<close>, which return or raise; the \<open>shape\<close> of a
  tensor. \<open>kwargs\<close> are the remaining keyword arguments of the call, which the factory
  forwards to the constructor of the base class.
\<close>

definition resnet_with_mix_style ::
  "(string \<rightharpoonup> string) \<Rightarrow> (string \<Rightarrow> bool \<Rightarrow> string + (string \<times> 'v) list) \<Rightarrow>
   (resnet_class \<Rightarrow> 'blk \<Rightarrow> nat list \<Rightarrow> 'kw \<Rightarrow> error + ('x, 's, 'v) resnet_base) \<Rightarrow>
   (real \<Rightarrow> real \<Rightarrow> error + ('x, 's) module) \<Rightarrow> ('v \<Rightarrow> 'sh) \<Rightarrow>
   string \<Rightarrow> 'blk \<Rightarrow> nat list \<Rightarrow> bool \<Rightarrow> bool \<Rightarrow> string list option \<Rightarrow> real \<Rightarrow> real \<Rightarrow>
   resnet_class \<Rightarrow> 'kw \<Rightarrow> error + ('x, 's, 'v) ResNetWithMixStyleModule" where
  "resnet_with_mix_style model_urls load_state_dict_from_url base_init MixStyle shape
       arch block layers pretrained progress mix_layers mix_p mix_alpha resnet_class kwargs =
     (let mix_layers = (case mix_layers of None \<Rightarrow> [] | Some ls \<Rightarrow> ls);
          available_resnet_class = [ResNet, ReidResNet]
      in if resnet_class \<notin> set available_resnet_class then Inl AssertionError
         else
           then_do (init base_init MixStyle resnet_class mix_layers mix_p mix_alpha
                      block layers kwargs) (\<lambda>model.
             if pretrained then
               (let model_dict = state_dict model in
                then_do (case model_urls arch of None \<Rightarrow> Inl KeyError | Some url \<Rightarrow> Inr url)
                  (\<lambda>url.
                then_do (case load_state_dict_from_url url progress of
                           Inl msg \<Rightarrow> Inl (ExternalError msg) | Inr d \<Rightarrow> Inr d)
                  (\<lambda>pretrained_dict.
                  (let pretrained_dict =
                         filter (\<lambda>(k, v). map_of model_dict k \<noteq> None) pretrained_dict
                   in then_do (load_state_dict shape (state_dict model) pretrained_dict False)
                        (\<lambda>loaded. Inr (model\<lparr>state_dict := loaded\<rparr>))))))
             else Inr model))"

subsection \<open>The forward pass as the specification words it\<close>

text \<open>
  The specification describes the forward pass as a sequence of stages: the stages of the
  backbone in order, and after any stage whose name is in the insertion set the mixing
  transform. These definitions follow those words; the theorems below compare them with
  \<open>forward\<close>.
\<close>

datatype stage =
  Conv1 | Bn1 | Relu | Maxpool | Layer1 | Layer2 | Layer3 | Layer4 | MixStyleModule

fun stage_name :: "stage \<Rightarrow> string" where
  "stage_name Conv1 = ''conv1''"
| "stage_name Bn1 = ''bn1''"
| "stage_name Relu = ''relu''"
| "stage_name Maxpool = ''maxpool''"
| "stage_name Layer1 = ''layer1''"
| "stage_name Layer2 = ''layer2''"
| "stage_name Layer3 = ''layer3''"
| "stage_name Layer4 = ''layer4''"
| "stage_name MixStyleModule = ''mixStyleModule''"

definition backbone_stages :: "resnet_class \<Rightarrow> stage list" where
  "backbone_stages c =
     [Conv1, Bn1] @ (if c = ReidResNet then [] else [Relu]) @
     [Maxpool, Layer1, Layer2, Layer3, Layer4]"

definition spec_stages :: "resnet_class \<Rightarrow> string list \<Rightarrow> stage list" where
  "spec_stages c insertion =
     concat (map (\<lambda>st. if stage_name st \<in> set insertion then [st, MixStyleModule] else [st])
               (backbone_stages c))"

fun run_stage :: "('x, 's, 'v) ResNetWithMixStyleModule \<Rightarrow> stage \<Rightarrow> ('x, 's) module" where
  "run_stage self Conv1 = conv1 self"
| "run_stage self Bn1 = bn1 self"
| "run_stage self Relu = relu self"
| "run_stage self Maxpool = maxpool self"
| "run_stage self Layer1 = layer1 self"
| "run_stage self Layer2 = layer2 self"
| "run_stage self Layer3 = layer3 self"
| "run_stage self Layer4 = layer4 self"
| "run_stage self MixStyleModule = mixStyleModule self"

fun run_stages :: "('x, 's, 'v) ResNetWithMixStyleModule \<Rightarrow> stage list \<Rightarrow> ('x, 's) module" where
  "run_stages self [] x s = (x, s)"
| "run_stages self (st # sts) x s =
     (case run_stage self st x s of (x', s') \<Rightarrow> run_stages self sts x' s')"

text \<open>
  A model whose every module does nothing but record its own call: it appends its stage to
  the feature map (so the feature map is the list of modules that produced it) and to the
  runtime state (so the state is the log of calls, in order).
\<close>

definition record_call :: "stage \<Rightarrow> (stage list, stage list) module" where
  "record_call st x s = (x @ [st], s @ [st])"

definition recording_base :: "(string \<times> 'v) list \<Rightarrow> (stage list, stage list, 'v) resnet_base" where
  "recording_base sd =
     \<lparr>conv1 = record_call Conv1, bn1 = record_call Bn1, relu = record_call Relu,
      maxpool = record_call Maxpool, layer1 = record_call Layer1,
      layer2 = record_call Layer2, layer3 = record_call Layer3,
      layer4 = record_call Layer4, state_dict = sd\<rparr>"

definition recording_model ::
  "resnet_class \<Rightarrow> string list \<Rightarrow> (stage list, stage list, unit) ResNetWithMixStyleModule" where
  "recording_model c ls =
     resnet_base.extend (recording_base [])
       \<lparr>mixStyleModule = record_call MixStyleModule, apply_layers = ls, base_class = c\<rparr>"

text \<open>
  The condition under which the tensor library loads \<open>sd\<close> into a model with the
  parameters \<open>own\<close> without a shape error: every tensor of \<open>sd\<close> that has the name of a
  parameter of the model has that parameter's shape.
\<close>

definition shapes_agree :: "('v \<Rightarrow> 'sh) \<Rightarrow> (string \<times> 'v) list \<Rightarrow> (string \<times> 'v) list \<Rightarrow> bool" where
  "shapes_agree shape own sd =
     list_all (\<lambda>(k, v). case map_of sd k of None \<Rightarrow> True | Some v' \<Rightarrow> shape v' = shape v) own"

text \<open>
  A concrete instance of the factory for the examples. The table has two architectures and
  the download knows the address of the first only. The base constructor reads the four
  entries of the depth list, as the constructor of the tensor library's ResNet does, and
  raises \<open>IndexError\<close> on a shorter list; the modules it builds record their calls.
\<close>

definition demo_fetch :: "string \<Rightarrow> bool \<Rightarrow> string + (string \<times> nat) list" where
  "demo_fetch url progress =
     (if url = ''https://weights/resnet18''
      then Inr [(''conv1.weight'', 7), (''fc.bias'', 9)] else Inl ''not found'')"

definition demo_base_init ::
  "resnet_class \<Rightarrow> unit \<Rightarrow> nat list \<Rightarrow> unit \<Rightarrow> error + (stage list, stage list, nat) resnet_base" where
  "demo_base_init c b layers kwargs =
     (if length layers < 4 then Inl IndexError
      else Inr (recording_base [(''conv1.weight'', 1), (''layer1.0.conv1.weight'', 2)]))"

definition demo_factory :: "string \<Rightarrow> nat list \<Rightarrow> bool \<Rightarrow> string list option \<Rightarrow>
    resnet_class \<Rightarrow> error + (stage list, stage list, nat) ResNetWithMixStyleModule" where
  "demo_factory arch layers pretrained mix_layers rc =
     resnet_with_mix_style
       [''resnet18'' \<mapsto> ''https://weights/resnet18'', ''resnet50'' \<mapsto> ''https://weights/resnet50'']
       demo_fetch demo_base_init (\<lambda>p a. Inr (record_call MixStyleModule)) (\<lambda>v. ())
       arch () layers pretrained True mix_layers (1 / 2) (1 / 10) rc ()"

section \<open>The training script (examples/domain_generalization/classification/coral.py)\<close>

subsection \<open>Python numbers and scalar tensors\<close>

text \<open>
  A loss accumulator of \<open>train\<close> starts as the Python integer \<open>0\<close> and becomes a tensor
  when the first loss is added to it; the divisors and the trade-off weight are Python
  numbers. A scalar tensor is modelled by a real number, so the rounding of floating-point
  arithmetic is not modelled. \<open>TensorNonFinite\<close> is the infinity or not-a-number that a
  tensor divided by zero yields: the tensor library raises nothing there, while Python
  raises \<open>ZeroDivisionError\<close> when one of its own numbers is divided by zero.
\<close>

datatype pynum = PyInt int | PyFloat real

datatype pyval = Num pynum | Tensor real | TensorNonFinite

fun num_val :: "pynum \<Rightarrow> real" where
  "num_val (PyInt i) = real_of_int i"
| "num_val (PyFloat x) = x"

fun num_add :: "pynum \<Rightarrow> pynum \<Rightarrow> pynum" where
  "num_add (PyInt a) (PyInt b) = PyInt (a + b)"
| "num_add a b = PyFloat (num_val a + num_val b)"

fun num_mul :: "pynum \<Rightarrow> pynum \<Rightarrow> pynum" where
  "num_mul (PyInt a) (PyInt b) = PyInt (a * b)"
| "num_mul a b = PyFloat (num_val a * num_val b)"

fun py_add :: "pyval \<Rightarrow> pyval \<Rightarrow> pyval" where
  "py_add (Num a) (Num b) = Num (num_add a b)"
| "py_add (Num a) (Tensor y) = Tensor (num_val a + y)"
| "py_add (Tensor x) (Num b) = Tensor (x + num_val b)"
| "py_add (Tensor x) (Tensor y) = Tensor (x + y)"
| "py_add _ _ = TensorNonFinite"

text \<open>A value times a Python number, and a value divided by a Python number.\<close>

fun py_mul :: "pyval \<Rightarrow> pynum \<Rightarrow> pyval" where
  "py_mul (Num a) b = Num (num_mul a b)"
| "py_mul (Tensor x) b = Tensor (x * num_val b)"
| "py_mul TensorNonFinite b = TensorNonFinite"

fun py_truediv :: "pyval \<Rightarrow> pynum \<Rightarrow> error + pyval" where
  "py_truediv (Num a) b =
     (if num_val b = 0 then Inl ZeroDivisionError
      else Inr (Num (PyFloat (num_val a / num_val b))))"
| "py_truediv (Tensor x) b =
     (if num_val b = 0 then Inr TensorNonFinite else Inr (Tensor (x / num_val b)))"
| "py_truediv TensorNonFinite b = Inr TensorNonFinite"

subsection \<open>Tensors along the batch dimension\<close>

text \<open>
  Only the first dimension of a tensor matters to \<open>train\<close>: a tensor is the list of its
  rows. \<open>Tensor.chunk\<close> is the tensor library's, as its documentation describes it: the
  rows are cut into pieces of \<open>ceil(n / chunks)\<close> rows, the last piece may be shorter, and
  fewer than \<open>chunks\<close> pieces may come back; an empty tensor gives \<open>chunks\<close> empty pieces;
  \<open>chunks\<close> must be positive.
\<close>

definition tensor_split :: "nat \<Rightarrow> 'a list \<Rightarrow> 'a list list" where
  "tensor_split split_size xs =
     (let num_splits = max ((length xs + split_size - 1) div split_size) 1
      in map (\<lambda>i. take split_size (drop (i * split_size) xs)) [0..<num_splits])"

definition chunk :: "nat \<Rightarrow> 'a list \<Rightarrow> error + 'a list list" where
  "chunk chunks xs =
     (if chunks = 0 then Inl RuntimeError
      else let split_size = (length xs + chunks - 1) div chunks
           in if split_size = 0 then Inr (replicate chunks [])
              else Inr (tensor_split split_size xs))"

text \<open>Indexing a tuple with a non-negative integer.\<close>

definition getitem :: "'a list \<Rightarrow> nat \<Rightarrow> error + 'a" where
  "getitem xs i = (if i < length xs then Inr (xs ! i) else Inl IndexError)"

subsection \<open>The collaborators of the script\<close>

text \<open>
  Everything the script calls and does not define comes in through one record, and every
  such call can raise: it returns an error or its result. The world \<open>'w\<close> is all mutable
  state outside the script's own variables: the parameters and buffers of the classifier,
  its training flag, the state of the optimizer and of the scheduler, the position of the
  data iterator, the random generators. A row of the input is \<open>'x\<close>, a label \<open>'l\<close>, a row
  of the logits \<open>'y\<close>, a row of the features \<open>'f\<close>; \<open>'p\<close> is a saved parameter state and
  \<open>'m\<close> an \<open>AverageMeter\<close>.

  \<open>accuracy\<close> takes the tuple \<open>topk\<close> and returns a list of accuracies.
  \<open>write_error\<close> is the error, if any, with which the file system refuses to write a
  path; \<open>get_checkpoint_path\<close> is the logger's map from a checkpoint name to its path.
  The meters, the timers and the progress display of \<open>train\<close> and \<open>validate\<close> only
  record and print; they are taken not to raise, and only the meter \<open>top1\<close> of
  \<open>validate\<close>, whose average is the result, is modelled. The values handed to the meters
  of \<open>train\<close> with \<open>.item()\<close> are tensors whenever line 190 is reached, so these calls do
  not raise either. The confusion matrix of \<open>validate\<close> belongs to the per-class
  evaluation, which is off unless asked for, and is not modelled.
\<close>

record ('x, 'l, 'y, 'f, 'w, 'p, 'm) collaborators =
  next_batch :: "'w \<Rightarrow> error + ('x list \<times> 'l list) \<times> 'w"
  model_forward :: "'x list \<Rightarrow> 'w \<Rightarrow> error + ('y list \<times> 'f list) \<times> 'w"
  model_train :: "'w \<Rightarrow> error + 'w"
  model_eval :: "'w \<Rightarrow> error + 'w"
  cross_entropy :: "'y list \<Rightarrow> 'l list \<Rightarrow> error + real"
  accuracy :: "nat list \<Rightarrow> 'y list \<Rightarrow> 'l list \<Rightarrow> error + real list"
  correlation_alignment_loss :: "'f list \<Rightarrow> 'f list \<Rightarrow> error + real"
  zero_grad :: "'w \<Rightarrow> error + 'w"
  backward :: "pyval \<Rightarrow> 'w \<Rightarrow> error + 'w"
  optimizer_step :: "'w \<Rightarrow> error + 'w"
  lr_scheduler_step :: "'w \<Rightarrow> error + 'w"
  classifier_state_dict :: "'w \<Rightarrow> 'p"
  write_error :: "'w \<Rightarrow> string \<Rightarrow> error option"
  get_checkpoint_path :: "string \<Rightarrow> string"
  meter_new :: "'m"
  meter_update :: "'m \<Rightarrow> real \<Rightarrow> nat \<Rightarrow> 'm"
  meter_avg :: "'m \<Rightarrow> real"

text \<open>The command-line arguments that \<open>train\<close>, \<open>validate\<close> and the epoch loop read.\<close>

record args =
  trade_off :: pynum
  iters_per_epoch :: int
  print_freq :: int
  epochs :: int

subsection \<open>\<open>train\<close> (lines 135-206)\<close>

text \<open>Lines 164-167: the logits, the features and the labels are cut into domains.\<close>

definition separate_domains :: "nat \<Rightarrow> 'y list \<Rightarrow> 'f list \<Rightarrow> 'l list \<Rightarrow>
    error + ('y list list \<times> 'f list list \<times> 'l list list)" where
  "separate_domains num_domains y_all f_all labels_all =
     then_do (chunk num_domains y_all) (\<lambda>y_all.
     then_do (chunk num_domains f_all) (\<lambda>f_all.
     then_do (chunk num_domains labels_all) (\<lambda>labels_all.
       Inr (y_all, f_all, labels_all))))"

text \<open>Lines 179-182: the inner loop over \<open>domain_j\<close>, given the values still to visit.\<close>

fun alignment_loop :: "('x, 'l, 'y, 'f, 'w, 'p, 'm) collaborators \<Rightarrow> 'f list list \<Rightarrow> nat \<Rightarrow>
    nat list \<Rightarrow> pyval \<Rightarrow> error + pyval" where
  "alignment_loop e f_all domain_i [] loss_penalty = Inr loss_penalty"
| "alignment_loop e f_all domain_i (domain_j # rest) loss_penalty =
     then_do (getitem f_all domain_i) (\<lambda>f_i.
     then_do (getitem f_all domain_j) (\<lambda>f_j.
     then_do (correlation_alignment_loss e f_i f_j) (\<lambda>penalty.
       alignment_loop e f_all domain_i rest (py_add loss_penalty (Tensor penalty)))))"

text \<open>
  Lines 172-182: the outer loop over \<open>domain_i\<close>, given the values still to visit and the
  three accumulators \<open>(loss_ce, loss_penalty, cls_acc)\<close>. The call \<open>accuracy(y_i, labels_i)\<close>
  has the default \<open>topk = (1,)\<close>.
\<close>

fun domain_loop :: "('x, 'l, 'y, 'f, 'w, 'p, 'm) collaborators \<Rightarrow> nat \<Rightarrow> 'y list list \<Rightarrow>
    'f list list \<Rightarrow> 'l list list \<Rightarrow> nat list \<Rightarrow> pyval \<times> pyval \<times> pyval \<Rightarrow>
    error + pyval \<times> pyval \<times> pyval" where
  "domain_loop e num_domains y_all f_all labels_all [] acc = Inr acc"
| "domain_loop e num_domains y_all f_all labels_all (domain_i # rest)
       (loss_ce, loss_penalty, cls_acc) =
     then_do (getitem y_all domain_i) (\<lambda>y_i.
     then_do (getitem labels_all domain_i) (\<lambda>labels_i.
     then_do (cross_entropy e y_i labels_i) (\<lambda>ce.
     then_do (accuracy e [1] y_i labels_i) (\<lambda>accs.
     then_do (getitem accs 0) (\<lambda>acc_i.
     then_do (py_truediv (Tensor acc_i) (PyInt (int num_domains))) (\<lambda>acc_i.
     then_do (alignment_loop e f_all domain_i [domain_i + 1..<num_domains] loss_penalty)
       (\<lambda>loss_penalty.
       domain_loop e num_domains y_all f_all labels_all rest
         (py_add loss_ce (Tensor ce), loss_penalty, py_add cls_acc acc_i))))))))"

text \<open>
  Lines 164-188: from the outputs of the classifier to
  \<open>(loss, loss_ce, loss_penalty, cls_acc)\<close>. The divisor of line 186 is the Python
  expression \<open>num_domains * (num_domains - 1) / 2\<close>: a product of integers, then a true
  division, which gives a float.
\<close>

definition compute_losses :: "('x, 'l, 'y, 'f, 'w, 'p, 'm) collaborators \<Rightarrow> args \<Rightarrow> nat \<Rightarrow>
    'y list \<Rightarrow> 'f list \<Rightarrow> 'l list \<Rightarrow> error + pyval \<times> pyval \<times> pyval \<times> pyval" where
  "compute_losses e args num_domains y_all f_all labels_all =
     then_do (separate_domains num_domains y_all f_all labels_all)
       (\<lambda>(y_all, f_all, labels_all).
     then_do (domain_loop e num_domains y_all f_all labels_all [0..<num_domains]
                (Num (PyInt 0), Num (PyInt 0), Num (PyInt 0)))
       (\<lambda>(loss_ce, loss_penalty, cls_acc).
     then_do (py_truediv loss_ce (PyInt (int num_domains))) (\<lambda>loss_ce.
     then_do (py_truediv loss_penalty
                (PyFloat (real_of_int (int num_domains * (int num_domains - 1)) / 2)))
       (\<lambda>loss_penalty.
       Inr (py_add loss_ce (py_mul loss_penalty (trade_off args)),
            loss_ce, loss_penalty, cls_acc)))))"

text \<open>
  Lines 154-206: one pass of the loop body. Of line 205 the model keeps the remainder by
  \<open>print_freq\<close>, which raises when \<open>print_freq\<close> is zero.
\<close>

definition train_iteration :: "('x, 'l, 'y, 'f, 'w, 'p, 'm) collaborators \<Rightarrow> args \<Rightarrow> nat \<Rightarrow>
    nat \<Rightarrow> 'w \<Rightarrow> error + 'w" where
  "train_iteration e args num_domains i w =
     then_do (next_batch e w) (\<lambda>((x_all, labels_all), w).
     then_do (model_forward e x_all w) (\<lambda>((y_all, f_all), w).
     then_do (compute_losses e args num_domains y_all f_all labels_all)
       (\<lambda>(loss, loss_ce, loss_penalty, cls_acc).
     then_do (zero_grad e w) (\<lambda>w.
     then_do (backward e loss w) (\<lambda>w.
     then_do (optimizer_step e w) (\<lambda>w.
     then_do (lr_scheduler_step e w) (\<lambda>w.
       if print_freq args = 0 then Inl ZeroDivisionError else Inr w)))))))"

fun train_loop :: "('x, 'l, 'y, 'f, 'w, 'p, 'm) collaborators \<Rightarrow> args \<Rightarrow> nat \<Rightarrow>
    nat list \<Rightarrow> 'w \<Rightarrow> error + 'w" where
  "train_loop e args num_domains [] w = Inr w"
| "train_loop e args num_domains (i # rest) w =
     then_do (train_iteration e args num_domains i w) (train_loop e args num_domains rest)"

definition train :: "('x, 'l, 'y, 'f, 'w, 'p, 'm) collaborators \<Rightarrow> args \<Rightarrow> nat \<Rightarrow>
    'w \<Rightarrow> error + 'w" where
  "train e args num_domains w =
     then_do (model_train e w)
       (train_loop e args num_domains [0..<nat (iters_per_epoch args)])"

subsection \<open>\<open>validate\<close> (lines 209-257)\<close>

text \<open>
  A data loader is the list of its batches. The classifier is switched to evaluation mode
  (line 220) and every batch goes through the forward pass, the cross-entropy and the
  accuracy. Line 238 unpacks the result of \<open>accuracy\<close> with \<open>topk = (1, 5)\<close> into two
  names, which raises unless it has two entries. Of line 249 the model keeps the remainder
  by \<open>print_freq\<close>.
\<close>

fun validate_loop :: "('x, 'l, 'y, 'f, 'w, 'p, 'm) collaborators \<Rightarrow> args \<Rightarrow>
    ('x list \<times> 'l list) list \<Rightarrow> 'm \<Rightarrow> 'w \<Rightarrow> error + 'm \<times> 'w" where
  "validate_loop e args [] top1 w = Inr (top1, w)"
| "validate_loop e args ((images, target) # rest) top1 w =
     then_do (model_forward e images w) (\<lambda>((output, _), w).
     then_do (cross_entropy e output target) (\<lambda>loss.
     then_do (accuracy e [1, 5] output target) (\<lambda>accs.
     then_do (case accs of [a1, a5] \<Rightarrow> Inr (a1, a5) | _ \<Rightarrow> Inl ValueError) (\<lambda>(a1, a5).
       if print_freq args = 0 then Inl ZeroDivisionError
       else validate_loop e args rest (meter_update e top1 a1 (length images)) w))))"

definition validate :: "('x, 'l, 'y, 'f, 'w, 'p, 'm) collaborators \<Rightarrow> args \<Rightarrow>
    ('x list \<times> 'l list) list \<Rightarrow> 'w \<Rightarrow> error + real \<times> 'w" where
  "validate e args val_loader w =
     then_do (model_eval e w) (\<lambda>w.
     then_do (validate_loop e args val_loader (meter_new e) w)
       (\<lambda>(top1, w). Inr (meter_avg e top1, w)))"

subsection \<open>The epoch loop of \<open>main\<close> (lines 104-125)\<close>

text \<open>
  The checkpoint files are a map from paths to saved parameter states. \<open>torch.save\<close>
  writes a path unless the file system refuses; \<open>shutil.copy\<close> needs the source to exist
  and to differ from the destination, and writes the destination unless the file system
  refuses.
\<close>

definition torch_save :: "('x, 'l, 'y, 'f, 'w, 'p, 'm) collaborators \<Rightarrow> 'p \<Rightarrow> string \<Rightarrow>
    (string \<rightharpoonup> 'p) \<Rightarrow> 'w \<Rightarrow> error + (string \<rightharpoonup> 'p)" where
  "torch_save e obj path fs w =
     (case write_error e w path of Some err \<Rightarrow> Inl err | None \<Rightarrow> Inr (fs(path \<mapsto> obj)))"

definition shutil_copy :: "('x, 'l, 'y, 'f, 'w, 'p, 'm) collaborators \<Rightarrow> string \<Rightarrow> string \<Rightarrow>
    (string \<rightharpoonup> 'p) \<Rightarrow> 'w \<Rightarrow> error + (string \<rightharpoonup> 'p)" where
  "shutil_copy e src dst fs w =
     (case fs src of
        None \<Rightarrow> Inl FileNotFoundError
      | Some content \<Rightarrow>
          if src = dst then Inl SameFileError
          else (case write_error e w dst of
                  Some err \<Rightarrow> Inl err | None \<Rightarrow> Inr (fs(dst \<mapsto> content))))"

text \<open>
  The variables of \<open>main\<close> that the loop changes, the checkpoint files, and the world.
  \<open>acc1\<close> has no value before the first validation.
\<close>

record ('w, 'p) main_state =
  best_val_acc1 :: real
  best_test_acc1 :: real
  acc1 :: "real option"
  files :: "string \<rightharpoonup> 'p"
  world :: 'w

definition epoch_body :: "('x, 'l, 'y, 'f, 'w, 'p, 'm) collaborators \<Rightarrow> args \<Rightarrow> nat \<Rightarrow>
    ('x list \<times> 'l list) list \<Rightarrow> ('x list \<times> 'l list) list \<Rightarrow> nat \<Rightarrow>
    ('w, 'p) main_state \<Rightarrow> error + ('w, 'p) main_state" where
  "epoch_body e args num_domains val_loader test_loader epoch st =
     then_do (train e args num_domains (world st)) (\<lambda>w.
     then_do (validate e args val_loader w) (\<lambda>(a, w).
     then_do (torch_save e (classifier_state_dict e w) (get_checkpoint_path e ''latest'')
                (files st) w) (\<lambda>fs.
     then_do (if a > best_val_acc1 st
              then shutil_copy e (get_checkpoint_path e ''latest'')
                     (get_checkpoint_path e ''best'') fs w
              else Inr fs) (\<lambda>fs.
     then_do (validate e args test_loader w) (\<lambda>(t, w).
       Inr \<lparr>best_val_acc1 = max a (best_val_acc1 st),
            best_test_acc1 = max (best_test_acc1 st) t,
            acc1 = Some a, files = fs, world = w\<rparr>)))))"

fun epoch_loop :: "('x, 'l, 'y, 'f, 'w, 'p, 'm) collaborators \<Rightarrow> args \<Rightarrow> nat \<Rightarrow>
    ('x list \<times> 'l list) list \<Rightarrow> ('x list \<times> 'l list) list \<Rightarrow> nat list \<Rightarrow>
    ('w, 'p) main_state \<Rightarrow> error + ('w, 'p) main_state" where
  "epoch_loop e args num_domains val_loader test_loader [] st = Inr st"
| "epoch_loop e args num_domains val_loader test_loader (epoch # rest) st =
     then_do (epoch_body e args num_domains val_loader test_loader epoch st)
       (epoch_loop e args num_domains val_loader test_loader rest)"

text \<open>
  The state with which the loop starts (lines 105-106), over the files and the world that
  are there, and the state after the first \<open>k\<close> epochs.
\<close>

definition start_state :: "(string \<rightharpoonup> 'p) \<Rightarrow> 'w \<Rightarrow> ('w, 'p) main_state" where
  "start_state fs w =
     \<lparr>best_val_acc1 = 0, best_test_acc1 = 0, acc1 = None, files = fs, world = w\<rparr>"

definition after_epochs :: "('x, 'l, 'y, 'f, 'w, 'p, 'm) collaborators \<Rightarrow> args \<Rightarrow> nat \<Rightarrow>
    ('x list \<times> 'l list) list \<Rightarrow> ('x list \<times> 'l list) list \<Rightarrow> (string \<rightharpoonup> 'p) \<Rightarrow> 'w \<Rightarrow>
    nat \<Rightarrow> error + ('w, 'p) main_state" where
  "after_epochs e args num_domains val_loader test_loader fs w k =
     epoch_loop e args num_domains val_loader test_loader [0..<k] (start_state fs w)"

definition main_training :: "('x, 'l, 'y, 'f, 'w, 'p, 'm) collaborators \<Rightarrow> args \<Rightarrow> nat \<Rightarrow>
    ('x list \<times> 'l list) list \<Rightarrow> ('x list \<times> 'l list) list \<Rightarrow> (string \<rightharpoonup> 'p) \<Rightarrow> 'w \<Rightarrow>
    error + ('w, 'p) main_state" where
  "main_training e args num_domains val_loader test_loader fs w =
     after_epochs e args num_domains val_loader test_loader fs w (nat (epochs args))"

subsection \<open>The losses as the specification words them\<close>



subsection \<open>An example set of collaborators\<close>



subsection \<open>Observing the calls and the epochs\<close>

text \<open>
  To count the calls of an epoch, the collaborators are wrapped: the world is paired with a
  log, and every call that changes the world and returns appends its event to the log. The
  wrapped collaborators raise exactly where the given ones do and compute the same values.
\<close>

datatype event =
  TrainMode | EvalMode | NextBatch | Forward | ZeroGrad | Backward | OptimizerStep
  | SchedulerStep

definition log_step :: "event \<Rightarrow> ('w \<Rightarrow> error + 'w) \<Rightarrow> 'w \<times> event list \<Rightarrow>
    error + 'w \<times> event list" where
  "log_step ev f = (\<lambda>(w, evs). case f w of Inl err \<Rightarrow> Inl err | Inr w' \<Rightarrow> Inr (w', evs @ [ev]))"

definition log_result :: "event \<Rightarrow> ('w \<Rightarrow> error + 'a \<times> 'w) \<Rightarrow> 'w \<times> event list \<Rightarrow>
    error + 'a \<times> 'w \<times> event list" where
  "log_result ev f =
     (\<lambda>(w, evs). case f w of Inl err \<Rightarrow> Inl err | Inr (r, w') \<Rightarrow> Inr (r, w', evs @ [ev]))"

definition logged :: "('x, 'l, 'y, 'f, 'w, 'p, 'm) collaborators \<Rightarrow>
    ('x, 'l, 'y, 'f, 'w \<times> event list, 'p, 'm) collaborators" where
  "logged e =
     \<lparr>next_batch = log_result NextBatch (next_batch e),
      model_forward = (\<lambda>x. log_result Forward (model_forward e x)),
      model_train = log_step TrainMode (model_train e),
      model_eval = log_step EvalMode (model_eval e),
      cross_entropy = cross_entropy e,
      accuracy = accuracy e,
      correlation_alignment_loss = correlation_alignment_loss e,
      zero_grad = log_step ZeroGrad (zero_grad e),
      backward = (\<lambda>loss. log_step Backward (backward e loss)),
      optimizer_step = log_step OptimizerStep (optimizer_step e),
      lr_scheduler_step = log_step SchedulerStep (lr_scheduler_step e),
      classifier_state_dict = (\<lambda>(w, evs). classifier_state_dict e w),
      write_error = (\<lambda>(w, evs). write_error e w),
      get_checkpoint_path = get_checkpoint_path e,
      meter_new = meter_new e,
      meter_update = meter_update e,
      meter_avg = meter_avg e\<rparr>"







section \<open>Properties of the ResNet with MixStyle modules\<close>

subsection \<open>Auxiliary facts\<close>

lemma forward_run_stages:
  assumes "set (apply_layers self) \<subseteq> {''layer1'', ''layer2'', ''layer3''}"
  shows "forward self x s = run_stages self (spec_stages (base_class self) (apply_layers self)) x s"
proof -
  have n: "''conv1'' \<notin> set (apply_layers self)" "''bn1'' \<notin> set (apply_layers self)"
    "''relu'' \<notin> set (apply_layers self)" "''maxpool'' \<notin> set (apply_layers self)"
    "''layer4'' \<notin> set (apply_layers self)"
    using assms by auto
  show ?thesis
    by (simp add: forward_def spec_stages_def backbone_stages_def n Let_def split: prod.splits)
qed

lemma run_stages_recording:
  "run_stages (recording_model c ls) sts x s = (x @ sts, s @ sts)"
proof (induction sts arbitrary: x s)
  case Nil show ?case by simp
next
  case (Cons st sts)
  have "run_stage (recording_model c ls) st x s = (x @ [st], s @ [st])"
    by (cases st) (simp_all add: recording_model_def recording_base_def resnet_base.defs record_call_def)
  then show ?case using Cons by simp
qed

lemma count_mix:
  assumes "set ls \<subseteq> {''layer1'', ''layer2'', ''layer3''}"
  shows "count_list (spec_stages c ls) MixStyleModule = card (set ls)"
proof -
  have n: "''conv1'' \<notin> set ls" "''bn1'' \<notin> set ls"
    "''relu'' \<notin> set ls" "''maxpool'' \<notin> set ls"
    "''layer4'' \<notin> set ls"
    using assms by auto
  have s: "set ls = (if ''layer1'' \<in> set ls then {''layer1''} else {}) \<union>
     (if ''layer2'' \<in> set ls then {''layer2''} else {}) \<union> (if ''layer3'' \<in> set ls then {''layer3''} else {})"
    (is "_ = ?R")
  proof (rule set_eqI)
    fix k show "k \<in> set ls \<longleftrightarrow> k \<in> ?R" using assms by (auto split: if_splits)
  qed
  have c: "card (set ls) = (if ''layer1'' \<in> set ls then 1 else 0) +
     (if ''layer2'' \<in> set ls then 1 else 0) + (if ''layer3'' \<in> set ls then 1 else 0)"
    by (subst s) simp
  show ?thesis unfolding c
    by (simp add: spec_stages_def backbone_stages_def n)
qed

lemma last_stage:
  assumes "set ls \<subseteq> {''layer1'', ''layer2'', ''layer3''}"
  shows "last (spec_stages c ls) = Layer4"
proof -
  have n: "''layer4'' \<notin> set ls"
    using assms by auto
  show ?thesis 
    by (simp add: spec_stages_def backbone_stages_def n)
qed

lemma assert_mix_layers_iff:
  "assert_mix_layers ls = Inr () \<longleftrightarrow> set ls \<subseteq> {''layer1'', ''layer2'', ''layer3''}"
  by (induction ls) auto

lemma assert_mix_layers_err:
  "assert_mix_layers ls = Inl e \<Longrightarrow> e = AssertionError"
  by (induction ls) (auto split: if_splits)

lemma map_of_filter_key:
  "map_of (filter (\<lambda>(k, v). P k) xs) k = (if P k then map_of xs k else None)"
  by (induction xs) auto

lemma map_of_map_value:
  "map_of (map (\<lambda>(k, v). (k, f k v)) xs) k = map_option (f k) (map_of xs k)"
  by (induction xs) auto

lemma filter_empty_iff: "filter P xs = [] \<longleftrightarrow> list_all (\<lambda>x. \<not> P x) xs"
  by (induction xs) auto

lemma load_state_dict_lenient:
  assumes "shapes_agree shape own sd"
  shows "load_state_dict shape own sd False =
    Inr (map (\<lambda>(k, v). (k, case map_of sd k of None \<Rightarrow> v | Some v' \<Rightarrow> v')) own)"
proof -
  have "filter (\<lambda>(k, v). case map_of sd k of None \<Rightarrow> False | Some v' \<Rightarrow> shape v' \<noteq> shape v) own = []"
    using assms unfolding shapes_agree_def filter_empty_iff
    by (induction own) (auto split: option.splits)
  then show ?thesis by (simp add: load_state_dict_def)
qed

lemma load_state_dict_strict_missing:
  assumes "(k, v) \<in> set own" "map_of sd k = None"
  shows "load_state_dict shape own sd True = Inl RuntimeError"
proof -
  have "(k, v) \<in> set (filter (\<lambda>(k, v). map_of sd k = None) own)"
    using assms by simp
  then have "filter (\<lambda>(k, v). map_of sd k = None) own \<noteq> []"
    by (metis empty_iff list.set(1))
  then show ?thesis by (simp add: load_state_dict_def Let_def)
qed

lemma shapes_agree_filter:
  "shapes_agree shape own (filter (\<lambda>(k, v). map_of own k \<noteq> None) sd) = shapes_agree shape own sd"
proof -
  have "\<And>k v. (k, v) \<in> set own \<Longrightarrow> map_of own k \<noteq> None"
    by (metis map_of_eq_None_iff fst_conv image_eqI)
  then show ?thesis
    unfolding shapes_agree_def list_all_iff
    by (auto simp: map_of_filter_key split: option.splits)
qed

lemma load_state_dict_error:
  "load_state_dict shape own sd strict = Inl e \<Longrightarrow> e = RuntimeError"
  by (auto simp: load_state_dict_def Let_def split: if_splits)

lemma map_fst_map_value: "map fst (map (\<lambda>(k, v). (k, f k v)) xs) = map fst xs"
  by (induction xs) auto

lemma init_result:
  "init base_init MixStyle rc ls mix_p mix_alpha block layers kwargs =
     (case base_init rc block layers kwargs of
        Inl e \<Rightarrow> Inl e
      | Inr base \<Rightarrow>
         (case MixStyle mix_p mix_alpha of
            Inl e \<Rightarrow> Inl e
          | Inr mix \<Rightarrow>
             if set ls \<subseteq> {''layer1'', ''layer2'', ''layer3''}
             then Inr (resnet_base.extend base
                        \<lparr>mixStyleModule = mix, apply_layers = ls, base_class = rc\<rparr>)
             else Inl AssertionError))"
proof (cases "assert_mix_layers ls")
  case (Inl e)
  then show ?thesis
    using assert_mix_layers_err [OF Inl] assert_mix_layers_iff [of ls]
    by (simp add: init_def then_do_def split: sum.splits)
next
  case (Inr u)
  then show ?thesis
    using assert_mix_layers_iff [of ls] by (simp add: init_def then_do_def split: sum.splits)
qed

lemma factory_result:
  "resnet_with_mix_style mu fetch base_init MixStyle shape arch block layers pretrained
      progress mix_layers mix_p mix_alpha rc kwargs =
   (let ls = (case mix_layers of None \<Rightarrow> [] | Some ls \<Rightarrow> ls)
    in if rc \<noteq> ResNet \<and> rc \<noteq> ReidResNet then Inl AssertionError
       else case base_init rc block layers kwargs of
         Inl e \<Rightarrow> Inl e
       | Inr base \<Rightarrow>
          (case MixStyle mix_p mix_alpha of
             Inl e \<Rightarrow> Inl e
           | Inr mix \<Rightarrow>
              if \<not> set ls \<subseteq> {''layer1'', ''layer2'', ''layer3''} then Inl AssertionError
              else if \<not> pretrained
              then Inr (resnet_base.extend base
                         \<lparr>mixStyleModule = mix, apply_layers = ls, base_class = rc\<rparr>)
              else case mu arch of
                None \<Rightarrow> Inl KeyError
              | Some url \<Rightarrow>
                 (case fetch url progress of
                    Inl msg \<Rightarrow> Inl (ExternalError msg)
                  | Inr pd \<Rightarrow>
                     (case load_state_dict shape (state_dict base)
                             (filter (\<lambda>(k, v). map_of (state_dict base) k \<noteq> None) pd) False of
                        Inl e \<Rightarrow> Inl e
                      | Inr loaded \<Rightarrow>
                         Inr ((resnet_base.extend base
                                \<lparr>mixStyleModule = mix, apply_layers = ls, base_class = rc\<rparr>)
                              \<lparr>state_dict := loaded\<rparr>)))))"
  by (simp add: resnet_with_mix_style_def init_result then_do_def Let_def resnet_base.defs
           split: option.splits sum.splits)

lemma load_state_dict_mismatch:
  assumes "\<not> shapes_agree shape own sd"
  shows "load_state_dict shape own sd strict = Inl RuntimeError"
proof -
  obtain k v where kv: "(k, v) \<in> set own"
    and no: "\<not> (case map_of sd k of None \<Rightarrow> True | Some v' \<Rightarrow> shape v' = shape v)"
    using assms unfolding shapes_agree_def list_all_iff by auto
  have "case map_of sd k of None \<Rightarrow> False | Some v' \<Rightarrow> shape v' \<noteq> shape v"
    using no by (cases "map_of sd k") simp_all
  then have "filter (\<lambda>(k, v). case map_of sd k of None \<Rightarrow> False | Some v' \<Rightarrow> shape v' \<noteq> shape v) own \<noteq> []"
    using kv by (auto simp: filter_empty_conv)
  then show ?thesis by (simp add: load_state_dict_def)
qed

subsection \<open>The claims\<close>

text \<open>
  Claim C2. For a model whose insertion list holds only names among layer1, layer2 and
  layer3, the forward pass is the run of the stage sequence the specification describes:
  conv1, bn1, relu (unless the base class is the re-identification one), maxpool, layer1
  to layer4, with the mixing transform right after each stage named in the insertion list
  and nowhere else. On the model whose modules record their calls, the feature map and the
  log of calls are that sequence. The mixing transform occurs in it once per distinct name
  of the insertion list; the sequence ends with layer4; and when the insertion list names
  layer2 only, the transform occurs once, between layer2 and layer3.
\<close>

theorem forward_mixes_after_insertion_stages:
  assumes "set (apply_layers self) \<subseteq> {''layer1'', ''layer2'', ''layer3''}"
  shows "forward self x s =
           run_stages self (spec_stages (base_class self) (apply_layers self)) x s \<and>
         forward (recording_model (base_class self) (apply_layers self)) [] [] =
           (spec_stages (base_class self) (apply_layers self),
            spec_stages (base_class self) (apply_layers self)) \<and>
         count_list (spec_stages (base_class self) (apply_layers self)) MixStyleModule =
           card (set (apply_layers self)) \<and>
         last (spec_stages (base_class self) (apply_layers self)) = Layer4 \<and>
         (set (apply_layers self) = {''layer2''} \<longrightarrow>
            spec_stages (base_class self) (apply_layers self) =
              [Conv1, Bn1] @ (if base_class self = ReidResNet then [] else [Relu]) @
              [Maxpool, Layer1, Layer2, MixStyleModule, Layer3, Layer4])"
proof -
  let ?c = "base_class self" and ?ls = "apply_layers self"
  let ?m = "recording_model ?c ?ls"
  have fields: "apply_layers ?m = ?ls" "base_class ?m = ?c"
    by (simp_all add: recording_model_def resnet_base.defs)
  have "forward ?m [] [] = run_stages ?m (spec_stages ?c ?ls) [] []"
    using forward_run_stages [of ?m "[]" "[]"] assms by (simp add: fields)
  then have rec: "forward ?m [] [] = (spec_stages ?c ?ls, spec_stages ?c ?ls)"
    by (simp add: run_stages_recording)
  have only2: "set ?ls = {''layer2''} \<longrightarrow> spec_stages ?c ?ls =
      [Conv1, Bn1] @ (if ?c = ReidResNet then [] else [Relu]) @
      [Maxpool, Layer1, Layer2, MixStyleModule, Layer3, Layer4]"
    by (simp add: spec_stages_def backbone_stages_def)
  show ?thesis
    using forward_run_stages [OF assms] rec count_mix [OF assms] last_stage [OF assms] only2
    by blast
qed

text \<open>
  The theorem at the model with recording modules, base class ResNet and insertion list
  layer2.
\<close>

theorem forward_mixes_after_insertion_stages_witness:
  "set (apply_layers (recording_model ResNet [''layer2'']))
     \<subseteq> {''layer1'', ''layer2'', ''layer3''} \<and>
   forward (recording_model ResNet [''layer2'']) [] [] =
     ([Conv1, Bn1, Relu, Maxpool, Layer1, Layer2, MixStyleModule, Layer3, Layer4],
      [Conv1, Bn1, Relu, Maxpool, Layer1, Layer2, MixStyleModule, Layer3, Layer4]) \<and>
   count_list [Conv1, Bn1, Relu, Maxpool, Layer1, Layer2, MixStyleModule, Layer3, Layer4]
     MixStyleModule = 1"
proof -
  let ?m = "recording_model ResNet [''layer2'']
              "
  have fields: "apply_layers ?m = [''layer2'']" "base_class ?m = ResNet"
    by (simp_all add: recording_model_def resnet_base.defs)
  have sub: "set (apply_layers ?m) \<subseteq> {''layer1'', ''layer2'', ''layer3''}"
    by (simp add: fields)
  have sp: "spec_stages ResNet [''layer2''] =
      [Conv1, Bn1, Relu, Maxpool, Layer1, Layer2, MixStyleModule, Layer3, Layer4]"
    by (simp add: spec_stages_def backbone_stages_def)
  have "forward ?m [] [] = (spec_stages ResNet [''layer2''], spec_stages ResNet [''layer2''])"
    using forward_mixes_after_insertion_stages [OF sub, of "[]" "[]", unfolded fields]
    by blast
  then show ?thesis
    using sub by (simp add: sp)
qed

text \<open>
  Claim C3, as the code has it. The factory fails with an assertion error when the base
  class is neither ResNet nor ReidResNet. For a supported class the constructors of the
  base class and of MixStyle run before the layer names are looked at, and an exception of
  either is the result of the construction. Once both have returned, the factory fails
  with an assertion error exactly when some requested layer name is outside layer1,
  layer2, layer3. With allowed names it returns the model when no pretrained weights are
  requested; when they are requested, an architecture missing from the table, a failed
  download and a tensor of the wrong shape each end the construction with their own
  error, and otherwise the model is returned.
\<close>

theorem construction_assertion_after_constructors:
  "(rc \<notin> {ResNet, ReidResNet} \<longrightarrow>
      resnet_with_mix_style mu fetch base_init MixStyle shape arch block layers pretrained
        progress mix_layers mix_p mix_alpha rc kwargs = Inl AssertionError) \<and>
   (rc \<in> {ResNet, ReidResNet} \<and> base_init rc block layers kwargs = Inl e \<longrightarrow>
      resnet_with_mix_style mu fetch base_init MixStyle shape arch block layers pretrained
        progress mix_layers mix_p mix_alpha rc kwargs = Inl e) \<and>
   (rc \<in> {ResNet, ReidResNet} \<and> base_init rc block layers kwargs = Inr base \<and>
    MixStyle mix_p mix_alpha = Inl e \<longrightarrow>
      resnet_with_mix_style mu fetch base_init MixStyle shape arch block layers pretrained
        progress mix_layers mix_p mix_alpha rc kwargs = Inl e) \<and>
   (rc \<in> {ResNet, ReidResNet} \<and> base_init rc block layers kwargs = Inr base \<and>
    MixStyle mix_p mix_alpha = Inr mix \<longrightarrow>
      (resnet_with_mix_style mu fetch base_init MixStyle shape arch block layers pretrained
         progress mix_layers mix_p mix_alpha rc kwargs = Inl AssertionError
       \<longleftrightarrow> \<not> set (case mix_layers of None \<Rightarrow> [] | Some ls \<Rightarrow> ls)
               \<subseteq> {''layer1'', ''layer2'', ''layer3''}) \<and>
      (set (case mix_layers of None \<Rightarrow> [] | Some ls \<Rightarrow> ls) \<subseteq> {''layer1'', ''layer2'', ''layer3''}
       \<longrightarrow>
         (\<not> pretrained \<longrightarrow>
            resnet_with_mix_style mu fetch base_init MixStyle shape arch block layers pretrained
              progress mix_layers mix_p mix_alpha rc kwargs =
            Inr (resnet_base.extend base
                  \<lparr>mixStyleModule = mix,
                   apply_layers = (case mix_layers of None \<Rightarrow> [] | Some ls \<Rightarrow> ls),
                   base_class = rc\<rparr>)) \<and>
         (pretrained \<and> mu arch = None \<longrightarrow>
            resnet_with_mix_style mu fetch base_init MixStyle shape arch block layers pretrained
              progress mix_layers mix_p mix_alpha rc kwargs = Inl KeyError) \<and>
         (pretrained \<and> mu arch = Some url \<and> fetch url progress = Inl msg \<longrightarrow>
            resnet_with_mix_style mu fetch base_init MixStyle shape arch block layers pretrained
              progress mix_layers mix_p mix_alpha rc kwargs = Inl (ExternalError msg)) \<and>
         (pretrained \<and> mu arch = Some url \<and> fetch url progress = Inr pd \<and>
          \<not> shapes_agree shape (state_dict base) pd \<longrightarrow>
            resnet_with_mix_style mu fetch base_init MixStyle shape arch block layers pretrained
              progress mix_layers mix_p mix_alpha rc kwargs = Inl RuntimeError) \<and>
         (pretrained \<and> mu arch = Some url \<and> fetch url progress = Inr pd \<and>
          shapes_agree shape (state_dict base) pd \<longrightarrow>
            (\<exists>model. resnet_with_mix_style mu fetch base_init MixStyle shape arch block layers
               pretrained progress mix_layers mix_p mix_alpha rc kwargs = Inr model))))"
proof -
  let ?own = "state_dict base"
  let ?restricted = "filter (\<lambda>(k, v). map_of ?own k \<noteq> None) pd"
  have ok: "shapes_agree shape ?own pd \<Longrightarrow>
     load_state_dict shape ?own ?restricted False =
     Inr (map (\<lambda>(k, v). (k, case map_of ?restricted k of None \<Rightarrow> v | Some v' \<Rightarrow> v')) ?own)"
    by (rule load_state_dict_lenient) (simp only: shapes_agree_filter)
  have bad: "load_state_dict shape ?own ?restricted False = Inl RuntimeError"
    if "\<not> shapes_agree shape ?own pd"
  proof -
    have "\<not> shapes_agree shape ?own ?restricted"
      using that unfolding shapes_agree_filter by assumption
    then show ?thesis by (rule load_state_dict_mismatch)
  qed
  show ?thesis
    unfolding factory_result Let_def
    using ok bad by (auto split: option.splits sum.splits dest: load_state_dict_error)
qed

text \<open>
  The theorem at the example factory: a name outside the allowed ones, an unsupported
  class, a run without pretrained weights, a base constructor that raises, and a run with
  pretrained weights.
\<close>

theorem construction_assertion_after_constructors_witness:
  "ResNet \<in> {ResNet, ReidResNet} \<and>
   demo_base_init ResNet () [2, 2, 2, 2] () =
     Inr (recording_base [(''conv1.weight'', 1), (''layer1.0.conv1.weight'', 2)]) \<and>
   demo_factory ''resnet18'' [2, 2, 2, 2] False (Some [''layer4'']) ResNet = Inl AssertionError \<and>
   demo_factory ''resnet18'' [2, 2, 2, 2] False (Some [''layer1'']) (OtherClass ''VGG'')
     = Inl AssertionError \<and>
   demo_factory ''resnet18'' [2, 2, 2, 2] False (Some [''layer1'', ''layer2'']) ReidResNet =
     Inr (resnet_base.extend (recording_base [(''conv1.weight'', 1), (''layer1.0.conv1.weight'', 2)])
           \<lparr>mixStyleModule = record_call MixStyleModule, apply_layers = [''layer1'', ''layer2''],
            base_class = ReidResNet\<rparr>) \<and>
   demo_factory ''resnet18'' [2, 2] False (Some [''layer4'']) ResNet = Inl IndexError \<and>
   (\<exists>model. demo_factory ''resnet18'' [2, 2, 2, 2] True None ResNet = Inr model)"
proof -
  let ?own = "[(''conv1.weight'', 1::nat), (''layer1.0.conv1.weight'', 2)]"
  let ?pd = "[(''conv1.weight'', 7::nat), (''fc.bias'', 9)]"
  have b4: "demo_base_init c () [2, 2, 2, 2] () = Inr (recording_base ?own)" for c
    by (simp add: demo_base_init_def)
  have b2: "demo_base_init ResNet () [2, 2] () = Inl IndexError"
    by (simp add: demo_base_init_def)
  have sh: "shapes_agree (\<lambda>v::nat. ()) (state_dict (recording_base ?own)) ?pd"
    by (simp add: shapes_agree_def recording_base_def)
  have f: "demo_fetch ''https://weights/resnet18'' True = Inr ?pd"
    by (simp add: demo_fetch_def)
  note T = construction_assertion_after_constructors [where
      mu = "[''resnet18'' \<mapsto> ''https://weights/resnet18'',
             ''resnet50'' \<mapsto> ''https://weights/resnet50'']"
      and fetch = demo_fetch and base_init = demo_base_init
      and MixStyle = "\<lambda>p a. Inr (record_call MixStyleModule)" and shape = "\<lambda>v. ()"
      and block = "()" and progress = True and mix_p = "1 / 2" and mix_alpha = "1 / 10"
      and kwargs = "()" and mix = "record_call MixStyleModule"
      and url = "''https://weights/resnet18''" and pd = ?pd and base = "recording_base ?own",
      folded demo_factory_def]
  have 1: "demo_factory ''resnet18'' [2, 2, 2, 2] False (Some [''layer4'']) ResNet
      = Inl AssertionError"
    using T [of ResNet "''resnet18''" "[2, 2, 2, 2]" False "Some [''layer4'']"] b4 by simp
  have 2: "demo_factory ''resnet18'' [2, 2, 2, 2] False (Some [''layer1'']) (OtherClass ''VGG'')
      = Inl AssertionError"
    using T [of "OtherClass ''VGG''" "''resnet18''" "[2, 2, 2, 2]" False "Some [''layer1'']"]
    by simp
  have 3: "demo_factory ''resnet18'' [2, 2, 2, 2] False (Some [''layer1'', ''layer2'']) ReidResNet =
     Inr (resnet_base.extend (recording_base ?own)
           \<lparr>mixStyleModule = record_call MixStyleModule, apply_layers = [''layer1'', ''layer2''],
            base_class = ReidResNet\<rparr>)"
    using T [of ReidResNet "''resnet18''" "[2, 2, 2, 2]" False "Some [''layer1'', ''layer2'']"] b4
    by simp
  have 4: "demo_factory ''resnet18'' [2, 2] False (Some [''layer4'']) ResNet = Inl IndexError"
    using T [of ResNet "''resnet18''" "[2, 2]" False "Some [''layer4'']" IndexError] b2 by simp
  have 5: "\<exists>model. demo_factory ''resnet18'' [2, 2, 2, 2] True None ResNet = Inr model"
    using T [of ResNet "''resnet18''" "[2, 2, 2, 2]" True None] b4 sh f by simp
  show ?thesis using 1 2 3 4 5 b4 by simp
qed

text \<open>
  The claim as the specification states it does not hold. With a depth list of two
  entries the base constructor raises \<open>IndexError\<close> before the layer names are asserted:
  the name layer4 is outside the allowed set and yet the failure is no assertion error;
  and with the allowed name layer1 and a supported class the construction raises. With
  allowed names, a supported class and a full depth list, a failed download and an
  architecture missing from the table make the construction raise as well.
\<close>

theorem construction_fails_iff_counterexample:
  "demo_factory ''resnet18'' [2, 2] False (Some [''layer4'']) ResNet = Inl IndexError \<and>
   \<not> (demo_factory ''resnet18'' [2, 2] False (Some [''layer4'']) ResNet = Inl AssertionError
        \<longleftrightarrow> (ResNet \<notin> {ResNet, ReidResNet} \<or>
             \<not> set [''layer4''] \<subseteq> {''layer1'', ''layer2'', ''layer3''})) \<and>
   ResNet \<in> {ResNet, ReidResNet} \<and> set [''layer1''] \<subseteq> {''layer1'', ''layer2'', ''layer3''} \<and>
   demo_factory ''resnet18'' [2, 2] False (Some [''layer1'']) ResNet = Inl IndexError \<and>
   demo_factory ''resnet50'' [3, 4, 6, 3] True (Some [''layer1'']) ResNet
     = Inl (ExternalError ''not found'') \<and>
   demo_factory ''resnet101'' [3, 4, 23, 3] True (Some [''layer1'']) ResNet = Inl KeyError"
  by (simp add: demo_factory_def factory_result demo_base_init_def demo_fetch_def)

text \<open>
  Claim C4. With the model constructed and pretrained weights requested and delivered, the
  downloaded dictionary is
  first restricted to the names of the model's own parameters, then loaded with strict
  matching off, and the factory returns a model. The names (and their order) of its
  parameters are those of the constructed model; a parameter whose name the downloaded
  dictionary lacks keeps its constructed value; a parameter whose name it has takes the
  downloaded value; nothing but the parameter dictionary changes, so the mixing transform
  stays as constructed. The same load with strict matching on would raise as soon as one
  parameter name is absent from the downloaded dictionary.
\<close>

theorem pretrained_load_keeps_absent_parameters:
  assumes "rc \<in> {ResNet, ReidResNet}"
    and "set (case mix_layers of None \<Rightarrow> [] | Some ls \<Rightarrow> ls) \<subseteq> {''layer1'', ''layer2'', ''layer3''}"
    and "mu arch = Some url"
    and "fetch url progress = Inr pd"
    and "shapes_agree shape (state_dict base) pd"
    and "base_init rc block layers kwargs = Inr base"
    and "MixStyle mix_p mix_alpha = Inr mix"
  shows "let own = state_dict base;
             restricted = filter (\<lambda>(k, v). map_of own k \<noteq> None) pd
         in \<exists>model.
              resnet_with_mix_style mu fetch base_init MixStyle shape arch block layers True
                progress mix_layers mix_p mix_alpha rc kwargs = Inr model \<and>
              set (map fst restricted) \<subseteq> set (map fst own) \<and>
              load_state_dict shape own restricted False = Inr (state_dict model) \<and>
              map fst (state_dict model) = map fst own \<and>
              (\<forall>k. map_of pd k = None \<longrightarrow> map_of (state_dict model) k = map_of own k) \<and>
              (\<forall>k v'. map_of own k \<noteq> None \<and> map_of pd k = Some v' \<longrightarrow>
                   map_of (state_dict model) k = Some v') \<and>
              model = (resnet_base.extend base
                         \<lparr>mixStyleModule = mix,
                          apply_layers = (case mix_layers of None \<Rightarrow> [] | Some ls \<Rightarrow> ls),
                          base_class = rc\<rparr>) \<lparr>state_dict := state_dict model\<rparr> \<and>
              ((\<exists>k. map_of own k \<noteq> None \<and> map_of pd k = None) \<longrightarrow>
                 load_state_dict shape own restricted True = Inl RuntimeError)"
proof -
  define own where "own = state_dict base"
  define restricted where "restricted = filter (\<lambda>(k, v). map_of own k \<noteq> None) pd"
  define loaded where
    "loaded = map (\<lambda>(k, v). (k, case map_of restricted k of None \<Rightarrow> v | Some v' \<Rightarrow> v')) own"
  define built where "built = resnet_base.extend base
       \<lparr>mixStyleModule = mix,
        apply_layers = (case mix_layers of None \<Rightarrow> [] | Some ls \<Rightarrow> ls), base_class = rc\<rparr>"
  have sd_built: "state_dict built = own"
    by (simp add: built_def own_def resnet_base.defs)
  have restr: "map_of restricted k = (if map_of own k \<noteq> None then map_of pd k else None)" for k
    unfolding restricted_def by (rule map_of_filter_key)
  have "shapes_agree shape own restricted"
    unfolding restricted_def using assms(5) by (simp only: shapes_agree_filter own_def)
  then have load: "load_state_dict shape own restricted False = Inr loaded"
    unfolding loaded_def by (rule load_state_dict_lenient)
  have result: "resnet_with_mix_style mu fetch base_init MixStyle shape arch block layers True
      progress mix_layers mix_p mix_alpha rc kwargs = Inr (built\<lparr>state_dict := loaded\<rparr>)"
    using assms(1-4,6,7) load
    unfolding restricted_def own_def built_def
    by (auto simp: factory_result Let_def resnet_base.defs)
  have keys: "set (map fst restricted) \<subseteq> set (map fst own)"
    unfolding restricted_def by (auto dest: map_of_SomeD intro: rev_image_eqI)
  have same_keys: "map fst loaded = map fst own"
    unfolding loaded_def by (rule map_fst_map_value)
  have lookup: "map_of loaded k =
      map_option (\<lambda>v. case map_of restricted k of None \<Rightarrow> v | Some v' \<Rightarrow> v') (map_of own k)" for k
    unfolding loaded_def by (rule map_of_map_value)
  have absent: "map_of pd k = None \<longrightarrow> map_of loaded k = map_of own k" for k
    by (cases "map_of own k") (simp_all add: lookup restr)
  have present: "map_of own k \<noteq> None \<and> map_of pd k = Some v' \<longrightarrow> map_of loaded k = Some v'"
    for k v'
    by (cases "map_of own k") (simp_all add: lookup restr)
  have strict: "(\<exists>k. map_of own k \<noteq> None \<and> map_of pd k = None) \<longrightarrow>
      load_state_dict shape own restricted True = Inl RuntimeError"
  proof
    assume "\<exists>k. map_of own k \<noteq> None \<and> map_of pd k = None"
    then obtain k v where kv: "map_of own k = Some v" "map_of pd k = None" by auto
    have "(k, v) \<in> set own" using kv(1) by (rule map_of_SomeD)
    moreover have "map_of restricted k = None" using kv by (simp add: restr)
    ultimately show "load_state_dict shape own restricted True = Inl RuntimeError"
      by (rule load_state_dict_strict_missing)
  qed
  have "resnet_with_mix_style mu fetch base_init MixStyle shape arch block layers True
          progress mix_layers mix_p mix_alpha rc kwargs = Inr (built\<lparr>state_dict := loaded\<rparr>) \<and>
        set (map fst restricted) \<subseteq> set (map fst own) \<and>
        load_state_dict shape own restricted False = Inr (state_dict (built\<lparr>state_dict := loaded\<rparr>)) \<and>
        map fst (state_dict (built\<lparr>state_dict := loaded\<rparr>)) = map fst own \<and>
        (\<forall>k. map_of pd k = None \<longrightarrow> map_of (state_dict (built\<lparr>state_dict := loaded\<rparr>)) k = map_of own k) \<and>
        (\<forall>k v'. map_of own k \<noteq> None \<and> map_of pd k = Some v' \<longrightarrow>
               map_of (state_dict (built\<lparr>state_dict := loaded\<rparr>)) k = Some v') \<and>
        built\<lparr>state_dict := loaded\<rparr> = built\<lparr>state_dict := state_dict (built\<lparr>state_dict := loaded\<rparr>)\<rparr> \<and>
        ((\<exists>k. map_of own k \<noteq> None \<and> map_of pd k = None) \<longrightarrow>
           load_state_dict shape own restricted True = Inl RuntimeError)"
    using result keys load same_keys absent present strict by simp
  then show ?thesis
    unfolding Let_def own_def [symmetric] restricted_def [symmetric] built_def [symmetric]
    by (rule exI)
qed

text \<open>
  The theorem at the example factory: the downloaded dictionary has conv1.weight and an
  fc.bias that the model lacks; the model's layer1.0.conv1.weight is absent from it and
  keeps its value 2.
\<close>

theorem pretrained_load_keeps_absent_parameters_witness:
  "ResNet \<in> {ResNet, ReidResNet} \<and>
   set (case None :: string list option of None \<Rightarrow> [] | Some ls \<Rightarrow> ls)
     \<subseteq> {''layer1'', ''layer2'', ''layer3''} \<and>
   [''resnet18'' \<mapsto> ''https://weights/resnet18'', ''resnet50'' \<mapsto> ''https://weights/resnet50'']
     ''resnet18'' = Some ''https://weights/resnet18'' \<and>
   demo_fetch ''https://weights/resnet18'' True = Inr [(''conv1.weight'', 7), (''fc.bias'', 9)] \<and>
   shapes_agree (\<lambda>v::nat. ())
     (state_dict (recording_base [(''conv1.weight'', 1), (''layer1.0.conv1.weight'', 2)]))
     [(''conv1.weight'', 7), (''fc.bias'', 9)] \<and>
   demo_base_init ResNet () [2, 2, 2, 2] () =
     Inr (recording_base [(''conv1.weight'', 1), (''layer1.0.conv1.weight'', 2)]) \<and>
   (\<exists>model. demo_factory ''resnet18'' [2, 2, 2, 2] True None ResNet = Inr model \<and>
      state_dict model = [(''conv1.weight'', 7), (''layer1.0.conv1.weight'', 2)])"
proof -
  let ?own = "[(''conv1.weight'', 1::nat), (''layer1.0.conv1.weight'', 2)]"
  let ?pd = "[(''conv1.weight'', 7::nat), (''fc.bias'', 9)]"
  let ?mu = "[''resnet18'' \<mapsto> ''https://weights/resnet18'',
              ''resnet50'' \<mapsto> ''https://weights/resnet50'']"
  have h1: "ResNet \<in> {ResNet, ReidResNet}" by simp
  have h2: "set (case None :: string list option of None \<Rightarrow> [] | Some ls \<Rightarrow> ls)
     \<subseteq> {''layer1'', ''layer2'', ''layer3''}" by simp
  have h3: "?mu ''resnet18'' = Some ''https://weights/resnet18''" by simp
  have h4: "demo_fetch ''https://weights/resnet18'' True = Inr ?pd"
    by (simp add: demo_fetch_def)
  have sd: "state_dict (recording_base ?own) = ?own"
    by (simp add: recording_base_def)
  have h5: "shapes_agree (\<lambda>v::nat. ()) (state_dict (recording_base ?own)) ?pd"
    unfolding sd by (simp add: shapes_agree_def)
  have h6: "demo_base_init ResNet () [2, 2, 2, 2] () = Inr (recording_base ?own)"
    by (simp add: demo_base_init_def)
  have h7: "(\<lambda>(p::real) (a::real). Inr (record_call MixStyleModule) :: error + _) (1 / 2) (1 / 10)
      = Inr (record_call MixStyleModule)" by simp
  have ld: "load_state_dict (\<lambda>v::nat. ()) ?own (filter (\<lambda>(k, v). map_of ?own k \<noteq> None) ?pd) False
      = Inr [(''conv1.weight'', 7), (''layer1.0.conv1.weight'', 2)]"
    by (simp add: load_state_dict_def)
  have "\<exists>model. demo_factory ''resnet18'' [2, 2, 2, 2] True None ResNet = Inr model \<and>
      load_state_dict (\<lambda>v::nat. ()) ?own (filter (\<lambda>(k, v). map_of ?own k \<noteq> None) ?pd) False
        = Inr (state_dict model)"
    using h1 h2 h3 h4 h5 h6 h7
      pretrained_load_keeps_absent_parameters [where rc = ResNet and mix_layers = None
          and mu = ?mu and arch = "''resnet18''"
          and url = "''https://weights/resnet18''" and fetch = demo_fetch and progress = True
          and pd = ?pd and shape = "\<lambda>v. ()" and base_init = demo_base_init
          and base = "recording_base ?own" and mix = "record_call MixStyleModule"
          and MixStyle = "\<lambda>p a. Inr (record_call MixStyleModule)" and block = "()"
          and layers = "[2, 2, 2, 2]" and mix_p = "1 / 2" and mix_alpha = "1 / 10"
          and kwargs = "()"]
    unfolding Let_def sd demo_factory_def
    by blast
  then have "\<exists>model. demo_factory ''resnet18'' [2, 2, 2, 2] True None ResNet = Inr model \<and>
      state_dict model = [(''conv1.weight'', 7), (''layer1.0.conv1.weight'', 2)]"
    unfolding ld by auto
  then show ?thesis using h1 h2 h3 h4 h5 h6 by blast
qed

text \<open>
  Claim C6. For a model that the factory returned, the base class is ResNet or
  ReidResNet, and the forward pass applies the activation after bn1 exactly when the base
  class is ResNet and skips it exactly when the base class is ReidResNet: the stage
  sequence that the forward pass runs holds relu in the first case only, the log of the
  recording model shows it, and with the re-identification class the result does not
  depend on the relu module at all. The two stage sequences differ in nothing else: both
  start with conv1 and bn1 and go on alike after the activation.
\<close>

theorem relu_only_for_plain_resnet:
  assumes "resnet_with_mix_style mu fetch base_init MixStyle shape arch block layers pretrained
             progress mix_layers mix_p mix_alpha rc kwargs = Inr model"
  shows "rc \<in> {ResNet, ReidResNet} \<and> base_class model = rc \<and>
         forward model x s = run_stages model (spec_stages rc (apply_layers model)) x s \<and>
         (Relu \<in> set (spec_stages rc (apply_layers model)) \<longleftrightarrow> rc = ResNet) \<and>
         (Relu \<notin> set (spec_stages rc (apply_layers model)) \<longleftrightarrow> rc = ReidResNet) \<and>
         (Relu \<in> set (snd (forward (recording_model rc (apply_layers model)) [] []))
            \<longleftrightarrow> rc = ResNet) \<and>
         (rc = ReidResNet \<longrightarrow> forward (model\<lparr>relu := r\<rparr>) x s = forward model x s) \<and>
         take 2 (spec_stages ReidResNet (apply_layers model)) = [Conv1, Bn1] \<and>
         spec_stages ResNet (apply_layers model) =
           [Conv1, Bn1, Relu] @ drop 2 (spec_stages ReidResNet (apply_layers model))"
proof -
  let ?ls = "apply_layers model"
  have rc: "rc \<in> {ResNet, ReidResNet}"
    using assms by (auto simp: factory_result Let_def split: if_splits sum.splits)
  have fields: "base_class model = rc \<and> set ?ls \<subseteq> {''layer1'', ''layer2'', ''layer3''}"
    using assms
    by (auto simp: factory_result Let_def resnet_base.defs
             split: if_splits option.splits sum.splits)
  then have names: "set ?ls \<subseteq> {''layer1'', ''layer2'', ''layer3''}" and bc: "base_class model = rc"
    by simp_all
  have n: "''conv1'' \<notin> set ?ls" "''bn1'' \<notin> set ?ls" "''relu'' \<notin> set ?ls"
    "''maxpool'' \<notin> set ?ls" "''layer4'' \<notin> set ?ls"
    using names by auto
  have fwd: "forward model x s = run_stages model (spec_stages rc ?ls) x s"
    using forward_run_stages [OF names] by (simp add: bc)
  have mem: "Relu \<in> set (spec_stages c ?ls) \<longleftrightarrow> c \<noteq> ReidResNet" for c
    by (simp add: spec_stages_def backbone_stages_def n)
  have rec_fields: "apply_layers (recording_model rc ?ls) = ?ls"
      "base_class (recording_model rc ?ls) = rc"
    by (simp_all add: recording_model_def resnet_base.defs)
  have "forward (recording_model rc ?ls) [] [] =
      run_stages (recording_model rc ?ls) (spec_stages rc ?ls) [] []"
    using forward_run_stages [of "recording_model rc ?ls" "[]" "[]"] names
    by (simp add: rec_fields)
  then have rec: "snd (forward (recording_model rc ?ls) [] []) = spec_stages rc ?ls"
    by (simp add: run_stages_recording)
  have skip: "rc = ReidResNet \<longrightarrow> forward (model\<lparr>relu := r\<rparr>) x s = forward model x s"
    using bc by (simp add: forward_def cong: if_cong)
  have tk: "take 2 (spec_stages ReidResNet ?ls) = [Conv1, Bn1]"
    by (simp add: spec_stages_def backbone_stages_def n)
  have rest: "spec_stages ResNet ?ls = [Conv1, Bn1, Relu] @ drop 2 (spec_stages ReidResNet ?ls)"
    by (simp add: spec_stages_def backbone_stages_def n)
  show ?thesis
    using rc bc fwd mem [of rc] rec skip tk rest by auto
qed

text \<open>
  The theorem at the example factory with the re-identification class, and the logs of
  both classes side by side.
\<close>

theorem relu_only_for_plain_resnet_witness:
  "demo_factory ''resnet18'' [2, 2, 2, 2] False (Some [''layer2'']) ReidResNet =
     Inr (resnet_base.extend (recording_base [(''conv1.weight'', 1), (''layer1.0.conv1.weight'', 2)])
           \<lparr>mixStyleModule = record_call MixStyleModule, apply_layers = [''layer2''],
            base_class = ReidResNet\<rparr>) \<and>
   Relu \<notin> set (spec_stages ReidResNet [''layer2'']) \<and>
   snd (forward (recording_model ReidResNet [''layer2'']) [] []) =
     [Conv1, Bn1, Maxpool, Layer1, Layer2, MixStyleModule, Layer3, Layer4] \<and>
   snd (forward (recording_model ResNet [''layer2'']) [] []) =
     [Conv1, Bn1, Relu, Maxpool, Layer1, Layer2, MixStyleModule, Layer3, Layer4]"
proof -
  let ?model = "resnet_base.extend
      (recording_base [(''conv1.weight'', 1::nat), (''layer1.0.conv1.weight'', 2)])
      \<lparr>mixStyleModule = record_call MixStyleModule, apply_layers = [''layer2''],
       base_class = ReidResNet\<rparr>"
  have built: "demo_factory ''resnet18'' [2, 2, 2, 2] False (Some [''layer2'']) ReidResNet = Inr ?model"
    by (simp add: demo_factory_def factory_result demo_base_init_def)
  have al: "apply_layers ?model = [''layer2'']"
    by (simp add: resnet_base.defs)
  have "Relu \<notin> set (spec_stages ReidResNet [''layer2''])"
    using relu_only_for_plain_resnet [OF built [unfolded demo_factory_def], unfolded al]
    by simp
  moreover have "snd (forward (recording_model c [''layer2'']) [] []) =
      [Conv1, Bn1] @ (if c = ReidResNet then [] else [Relu]) @
      [Maxpool, Layer1, Layer2, MixStyleModule, Layer3, Layer4]" for c
    by (simp add: forward_def recording_model_def recording_base_def resnet_base.defs
          record_call_def)
  ultimately show ?thesis using built by simp
qed
section \<open>Properties of the training script\<close>

subsection \<open>Auxiliary facts\<close>



























lemma logged_pure [simp]:
  "cross_entropy (logged e) = cross_entropy e"
  "accuracy (logged e) = accuracy e"
  "correlation_alignment_loss (logged e) = correlation_alignment_loss e"
  by (simp_all add: logged_def)



































subsection \<open>The claims\<close>









end
